theory Spec2Isabelle
  imports Main "HOL-Library.Word"
begin

section \<open>JavaScript strings\<close>

text \<open>
  A JavaScript string is a sequence of UTF-16 code units: \<open>length\<close>, \<open>substring\<close>,
  \<open>trim\<close>, \<open>split\<close> and \<open>replace\<close> all work on code units. A string is therefore
  a list of 16-bit words. \<open>js\<close> embeds an ASCII literal; the two non-ASCII characters of
  the source, the ellipsis U+2026 and the return arrow U+21B5, are single code units.
\<close>

type_synonym jschar = "16 word"
type_synonym jsstring = "jschar list"

definition js :: "string \<Rightarrow> jsstring" where
  "js s = map of_char s"

text \<open>
  White space of \<open>String.prototype.trim\<close>, of \<open>parseInt\<close> and of the pattern class
  \<open>\s\<close>: the WhiteSpace and LineTerminator code points of ECMAScript.
\<close>

definition isWhiteSpace :: "jschar \<Rightarrow> bool" where
  "isWhiteSpace c \<longleftrightarrow>
     c = 0x09 \<or> c = 0x0A \<or> c = 0x0B \<or> c = 0x0C \<or> c = 0x0D \<or> c = 0x20 \<or> c = 0xA0 \<or>
     c = 0x1680 \<or> (0x2000 \<le> c \<and> c \<le> 0x200A) \<or> c = 0x2028 \<or> c = 0x2029 \<or>
     c = 0x202F \<or> c = 0x205F \<or> c = 0x3000 \<or> c = 0xFEFF"

definition trim :: "jsstring \<Rightarrow> jsstring" where
  "trim s = rev (dropWhile isWhiteSpace (rev (dropWhile isWhiteSpace s)))"

definition startsWith :: "jsstring \<Rightarrow> jsstring \<Rightarrow> bool" where
  \<comment> \<open>\<open>s.startsWith(p)\<close>\<close>
  "startsWith s p \<longleftrightarrow> take (length p) s = p"

definition endsWith :: "jsstring \<Rightarrow> jsstring \<Rightarrow> bool" where
  \<comment> \<open>\<open>s.endsWith(p)\<close>\<close>
  "endsWith s p \<longleftrightarrow> length p \<le> length s \<and> drop (length s - length p) s = p"

fun includesStr :: "jsstring \<Rightarrow> jsstring \<Rightarrow> bool" where
  \<comment> \<open>\<open>s.includes(p)\<close>\<close>
  "includesStr [] p = (p = [])"
| "includesStr (c # cs) p = (startsWith (c # cs) p \<or> includesStr cs p)"

fun split_on :: "(jschar \<Rightarrow> bool) \<Rightarrow> jsstring \<Rightarrow> jsstring list" where
  \<comment> \<open>\<open>s.split(/[...]/)\<close> with a one-character class as separator: the empty string
      gives one empty piece, and adjacent separators give empty pieces.\<close>
  "split_on sep [] = [[]]"
| "split_on sep (c # cs) =
     (if sep c then [] # split_on sep cs
      else (case split_on sep cs of
              [] \<Rightarrow> [[c]]
            | p # ps \<Rightarrow> (c # p) # ps))"

section \<open>Version comparison\<close>

text \<open>
  \<open>parseInt(x, 10)\<close>: leading white space is skipped, one sign is accepted, then the
  longest run of decimal digits is read; \<open>None\<close> is NaN (no digit). The result is a
  Number, a double: the integer that the digits denote, rounded to the nearest double
  (to the even one of two nearest), and Infinity from \<open>2^1024 - 2^970\<close> on. Such a
  Number is an integer or infinite and is kept here as an \<open>int\<close>, with \<open>2^1024\<close> and
  \<open>- 2^1024\<close> standing for the two infinities; the order of the Numbers is the order
  of these integers.
\<close>

definition isDigit :: "jschar \<Rightarrow> bool" where
  "isDigit c \<longleftrightarrow> 0x30 \<le> c \<and> c \<le> 0x39"

definition digitsValue :: "jsstring \<Rightarrow> nat" where
  "digitsValue ds = foldl (\<lambda>n c. 10 * n + (unat c - 48)) 0 ds"

function bitLength :: "nat \<Rightarrow> nat" where
  "bitLength n = (if n = 0 then 0 else Suc (bitLength (n div 2)))"
  by pat_completeness auto
termination
proof (relation "measure id")
  show "wf (measure id)" by simp
next
  fix n :: nat assume "n \<noteq> 0"
  then have "n div 2 < n" by simp
  then show "(n div 2, n) \<in> measure id" by simp
qed

declare bitLength.simps [simp del]

definition toDouble :: "nat \<Rightarrow> nat" where
  \<comment> \<open>53 significant bits are kept; \<open>r\<close> is what is cut off, compared with one half\<close>
  "toDouble n =
     (if n < 2 ^ 53 then n
      else (let e = bitLength n - 53;
                q = n div 2 ^ e;
                r = n mod 2 ^ e;
                q' = (if 2 ^ e < 2 * r \<or> (2 * r = 2 ^ e \<and> odd q) then q + 1 else q)
            in min (q' * 2 ^ e) (2 ^ 1024)))"

definition parseInt10 :: "jsstring \<Rightarrow> int option" where
  "parseInt10 x =
     (let s = dropWhile isWhiteSpace x;
          neg = (s \<noteq> [] \<and> hd s = 0x2D);
          s' = (if s \<noteq> [] \<and> (hd s = 0x2B \<or> hd s = 0x2D) then tl s else s);
          ds = takeWhile isDigit s'
      in if ds = [] then None
         else Some (if neg then - int (toDouble (digitsValue ds))
                    else int (toDouble (digitsValue ds))))"

definition component :: "jsstring \<Rightarrow> int" where
  \<comment> \<open>\<open>parseInt(x, 10) || 0\<close>: NaN and 0 are falsy.\<close>
  "component x = (case parseInt10 x of None \<Rightarrow> 0 | Some n \<Rightarrow> n)"

definition stripV :: "jsstring \<Rightarrow> jsstring" where
  \<comment> \<open>\<open>a.replace(/^v/, '')\<close>\<close>
  "stripV a = (case a of [] \<Rightarrow> [] | c # cs \<Rightarrow> if c = 0x76 then cs else c # cs)"

definition isVersionSep :: "jschar \<Rightarrow> bool" where
  \<comment> \<open>the class \<open>[-.]\<close>\<close>
  "isVersionSep c \<longleftrightarrow> c = 0x2D \<or> c = 0x2E"

definition versionParts :: "jsstring \<Rightarrow> int list" where
  "versionParts a = map component (split_on isVersionSep (stripV a))"

definition partAt :: "int list \<Rightarrow> nat \<Rightarrow> int" where
  \<comment> \<open>\<open>pa[i] || 0\<close>: an index past the end reads \<open>undefined\<close>, which is falsy.\<close>
  "partAt pa i = (if i < length pa then pa ! i else 0)"

function compareLoop :: "int list \<Rightarrow> int list \<Rightarrow> nat \<Rightarrow> nat \<Rightarrow> int" where
  "compareLoop pa pb len i =
     (if i < len then
        (let na = partAt pa i; nb = partAt pb i
         in if na < nb then - 1
            else if na > nb then 1
            else compareLoop pa pb len (i + 1))
      else 0)"
  by pat_completeness auto
termination
  by (relation "measure (\<lambda>(pa, pb, len, i). len - i)") auto

declare compareLoop.simps [simp del]

definition compareSemver :: "jsstring \<Rightarrow> jsstring \<Rightarrow> int" where
  "compareSemver a b =
     (let pa = versionParts a; pb = versionParts b
      in compareLoop pa pb (max (length pa) (length pb)) 0)"

text \<open>
  \<open>doVersionCheck\<close>, once the response has arrived: the notification is shown when both
  version strings are non-empty and the installed one compares below the latest one.
  \<open>installedVersion\<close> is \<open>null\<close> or a string.
\<close>

definition doVersionCheck :: "jsstring option \<Rightarrow> jsstring \<Rightarrow> bool" where
  "doVersionCheck installedVersion data =
     (let latestVersion = trim data
      in case installedVersion of
           None \<Rightarrow> False
         | Some installed \<Rightarrow>
             if latestVersion = [] \<or> installed = [] then False
             else compareSemver installed latestVersion < 0)"

text \<open>
  Version strings written from numbers, to state what the comparison does with them:
  \<open>decimal n\<close> is \<open>n\<close> in decimal digits and \<open>dotted ns\<close> joins the numbers with dots.
\<close>

definition digitChar :: "nat \<Rightarrow> jschar" where
  "digitChar k = of_nat (48 + k)"

function decimal :: "nat \<Rightarrow> jsstring" where
  "decimal n =
     (if n < 10 then [digitChar n]
      else decimal (n div 10) @ [digitChar (n mod 10)])"
  by pat_completeness auto
termination
proof (relation "measure id")
  show "wf (measure id)" by simp
next
  fix n :: nat assume "\<not> n < 10"
  then have "n div 10 < n" by simp
  then show "(n div 10, n) \<in> measure id" by simp
qed

declare decimal.simps [simp del]

fun dotted :: "nat list \<Rightarrow> jsstring" where
  "dotted [] = []"
| "dotted [n] = decimal n"
| "dotted (n # m # ns) = decimal n @ 0x2E # dotted (m # ns)"

section \<open>Evaluation: language server first, command line as fallback\<close>

text \<open>
  An exception is a value, an \<open>Error\<close> object with its message. A promise is resolved
  with a value, rejected with an error, or never settled.
\<close>

datatype js_error = Error (message: jsstring)

datatype 'a promise = Resolved 'a | Rejected js_error | Pending

record eval_result =
  success :: bool
  result :: jsstring
  error :: "jsstring option"
  namespace :: "jsstring option"
  stdout :: "jsstring option"

record lsp_request =
  req_code :: jsstring
  req_namespace :: "jsstring option"
  req_fileUri :: "jsstring option"

datatype lsp_response =
    Request_rejected js_error
  | Response_null
  | Response eval_result

subsection \<open>The library function \<open>execFile\<close>\<close>

text \<open>
  \<open>execFile(file, args, options, callback)\<close> of Node. It checks its arguments before
  anything else and throws at once, in the caller, when the file name is empty or the
  file name or an argument contains the character U+0000. Otherwise it starts a
  process and calls back once, later: with an error when the process could not be
  started (then both streams are empty); with an error when the process ran longer than
  \<open>options.timeout\<close> milliseconds and was killed at that moment; with an error when the
  process ended with a non-zero code; and with \<open>null\<close> as error when it ended with
  code 0. With no timeout (0) and a process that never ends there is no call back.
  The signal sent at the timeout is taken to end the process at that moment; a process
  that ignores the signal is not described.

  A process is described by how it would run if left alone: whether it can be started,
  after how many milliseconds it ends (\<open>None\<close>: never), with which code, and what it has
  written to standard output and standard error up to a given moment. \<open>cb_time\<close> is the
  moment of the call back, in milliseconds after the call. Output beyond the buffer limit of
  \<open>execFile\<close> is not considered.
\<close>

record exec_call =
  command :: jsstring
  args :: "jsstring list"
  timeout :: nat
  cwd :: "jsstring option"

record process =
  spawn_error :: "jsstring option"
  duration :: "nat option"
  exit_code :: int
  output_by :: "nat \<Rightarrow> jsstring \<times> jsstring"

record callback =
  cb_error :: "js_error option"
  cb_stdout :: jsstring
  cb_stderr :: jsstring
  cb_time :: nat

datatype exec_end = Throws js_error | Calls_back callback | Never_calls_back

definition hasNul :: "jsstring \<Rightarrow> bool" where
  "hasNul s \<longleftrightarrow> 0 \<in> set s"

definition argsAccepted :: "exec_call \<Rightarrow> bool" where
  "argsAccepted call \<longleftrightarrow>
     command call \<noteq> [] \<and> \<not> hasNul (command call) \<and> list_all (\<lambda>a. \<not> hasNul a) (args call)"

definition commandFailed :: "exec_call \<Rightarrow> jsstring \<Rightarrow> jsstring" where
  \<comment> \<open>the message of the error for a process that was killed or ended with a non-zero code\<close>
  "commandFailed call err =
     js ''Command failed: '' @ command call @ concat (map (\<lambda>a. 0x20 # a) (args call))
     @ [0x0A] @ err"

definition exited :: "exec_call \<Rightarrow> process \<Rightarrow> nat \<Rightarrow> callback" where
  "exited call p d =
     \<lparr>cb_error = (if exit_code p = 0 then None
                  else Some (Error (commandFailed call (snd (output_by p d))))),
      cb_stdout = fst (output_by p d), cb_stderr = snd (output_by p d), cb_time = d\<rparr>"

definition killed :: "exec_call \<Rightarrow> process \<Rightarrow> callback" where
  "killed call p =
     \<lparr>cb_error = Some (Error (commandFailed call (snd (output_by p (timeout call))))),
      cb_stdout = fst (output_by p (timeout call)),
      cb_stderr = snd (output_by p (timeout call)), cb_time = timeout call\<rparr>"

definition execFile :: "(exec_call \<Rightarrow> process) \<Rightarrow> exec_call \<Rightarrow> exec_end" where
  "execFile spawn call =
     (if \<not> argsAccepted call then Throws (Error (js ''ERR_INVALID_ARG_VALUE''))
      else (let p = spawn call
            in case spawn_error p of
                 Some m \<Rightarrow>
                   Calls_back \<lparr>cb_error = Some (Error m), cb_stdout = [], cb_stderr = [],
                               cb_time = 0\<rparr>
               | None \<Rightarrow>
                   (case duration p of
                      Some d \<Rightarrow>
                        if timeout call = 0 \<or> d \<le> timeout call then Calls_back (exited call p d)
                        else Calls_back (killed call p)
                    | None \<Rightarrow>
                        if timeout call = 0 then Never_calls_back
                        else Calls_back (killed call p))))"

subsection \<open>\<open>evaluateHotCode\<close>\<close>

text \<open>
  The environment of \<open>evaluateHotCode\<close> is what the function reads and calls: the global
  \<open>client\<close> (\<open>None\<close> is \<open>null\<close>; otherwise what its \<open>sendRequest\<close> answers), the flag
  \<open>isRunning\<close>, whether the log \<open>channel\<close> exists, the configured command, the working
  directory, and the process that a call of \<open>execFile\<close> starts. The second component of
  the result of \<open>evaluateHotCode\<close> lists the calls made, in order. The call of \<open>execFile\<close>
  is made in the executor of the promise that is returned, with no \<open>try\<close> around it:
  when \<open>execFile\<close> throws, that promise is rejected.
\<close>

datatype effect =
    SendRequest jsstring lsp_request
  | AppendLine jsstring
  | ExecFile exec_call

record eval_env =
  client :: "(jsstring \<Rightarrow> lsp_request \<Rightarrow> lsp_response) option"
  isRunning :: bool
  channel :: bool
  commandPath :: jsstring
  workspaceCwd :: jsstring
  spawn :: "exec_call \<Rightarrow> process"




definition evalCall :: "eval_env \<Rightarrow> jsstring \<Rightarrow> exec_call" where
  "evalCall env code =
     \<lparr>command = commandPath env, args = [js ''eval'', code], timeout = 30000,
      cwd = Some (workspaceCwd env)\<rparr>"

definition onExecCallback :: "callback \<Rightarrow> eval_result" where
  \<comment> \<open>the value the callback of \<open>evaluateHotCode\<close> resolves the promise with\<close>
  "onExecCallback cb =
     (case cb_error cb of
        Some e \<Rightarrow>
          \<lparr>success = False, result = [],
           error = Some (if cb_stderr cb \<noteq> [] then cb_stderr cb else message e),
           namespace = None, stdout = None\<rparr>
      | None \<Rightarrow>
          \<lparr>success = True, result = trim (cb_stdout cb),
           error = None, namespace = None, stdout = None\<rparr>)"

definition cliEval :: "eval_env \<Rightarrow> jsstring \<Rightarrow> eval_result promise \<times> effect list" where
  "cliEval env code =
     (let call = evalCall env code
      in (case execFile (spawn env) call of
            Throws e \<Rightarrow> Rejected e
          | Calls_back cb \<Rightarrow> Resolved (onExecCallback cb)
          | Never_calls_back \<Rightarrow> Pending,
          [ExecFile call]))"








definition exitsNonZero :: process where
  "exitsNonZero =
     \<lparr>spawn_error = None, duration = Some 80, exit_code = 1,
      output_by = (\<lambda>t. ([], js ''error: unknown symbol'' @ [0x0A]))\<rparr>"



section \<open>Inline display of a result\<close>

text \<open>
  \<open>showInlineResult\<close>: \<open>res\<close> is the parameter \<open>result\<close>, a string; \<open>out\<close> is the
  optional parameter \<open>stdout\<close> (\<open>None\<close> is \<open>undefined\<close>); \<open>endPos\<close> is line and
  character of \<open>range.end\<close>.
\<close>

definition truthy :: "jsstring option \<Rightarrow> bool" where
  "truthy x = (case x of None \<Rightarrow> False | Some s \<Rightarrow> s \<noteq> [])"

definition composeDisplay :: "jsstring \<Rightarrow> jsstring option \<Rightarrow> jsstring" where
  "composeDisplay res out =
     (case out of
        None \<Rightarrow> res
      | Some s \<Rightarrow>
          if s \<noteq> [] \<and> trim s \<noteq> []
          then trim s @ (if res \<noteq> [] \<and> res \<noteq> js ''null'' then js '' => '' @ res else [])
          else res)"

definition collapseNewlines :: "jsstring \<Rightarrow> jsstring" where
  \<comment> \<open>\<open>replace(/\n/g, ...)\<close>: every line feed becomes space, U+21B5, space.\<close>
  "collapseNewlines d = concat (map (\<lambda>c. if c = 0x0A then [0x20, 0x21B5, 0x20] else [c]) d)"

definition maxLen :: nat where
  "maxLen = 80"

definition truncateDisplay :: "jsstring \<Rightarrow> jsstring" where
  "truncateDisplay d = (if length d > maxLen then take maxLen d @ [0x2026] else d)"

definition displayResult :: "jsstring \<Rightarrow> jsstring option \<Rightarrow> jsstring" where
  "displayResult res out = truncateDisplay (collapseNewlines (composeDisplay res out))"

definition contentText :: "jsstring \<Rightarrow> jsstring option \<Rightarrow> jsstring" where
  \<comment> \<open>\<open>stdout ? displayResult : `=> ${displayResult}`\<close>\<close>
  "contentText res out =
     (if truthy out then displayResult res out else js ''=> '' @ displayResult res out)"

record decoration =
  at_line :: nat
  at_character :: nat
  text_after :: jsstring
  error_color :: bool

text \<open>
  The editor shows the decorations last set for the one decoration type. Each call of
  \<open>showInlineResult\<close> subscribes a listener to document changes and starts a timer; both
  are identified here by a number \<open>k\<close>. \<open>listeners\<close> holds the subscriptions that are
  not disposed yet. The host calls a listener only while it is subscribed, and the timer
  callback runs once; disposing twice is allowed by the host and does nothing.
\<close>

record editor_state =
  decorations :: "decoration list"
  listeners :: "nat set"

definition showInlineResult ::
  "nat \<Rightarrow> editor_state \<Rightarrow> nat \<times> nat \<Rightarrow> jsstring \<Rightarrow> bool \<Rightarrow> jsstring option \<Rightarrow> editor_state" where
  "showInlineResult k st endPos res isError out =
     \<lparr>decorations =
        [\<lparr>at_line = fst endPos, at_character = snd endPos,
          text_after = contentText res out, error_color = isError\<rparr>],
      listeners = insert k (listeners st)\<rparr>"

definition onDidChangeTextDocument :: "nat \<Rightarrow> bool \<Rightarrow> editor_state \<Rightarrow> editor_state" where
  \<comment> \<open>the listener of annotation \<open>k\<close>; \<open>sameDocument\<close> is \<open>e.document === editor.document\<close>\<close>
  "onDidChangeTextDocument k sameDocument st =
     (if k \<in> listeners st \<and> sameDocument
      then \<lparr>decorations = [], listeners = listeners st - {k}\<rparr>
      else st)"

definition onTimeout :: "nat \<Rightarrow> editor_state \<Rightarrow> editor_state" where
  \<comment> \<open>the callback given to \<open>setTimeout\<close> by the call that showed annotation \<open>k\<close>\<close>
  "onTimeout k st = \<lparr>decorations = [], listeners = listeners st - {k}\<rparr>"

definition effectiveClear :: "editor_state \<Rightarrow> editor_state \<Rightarrow> bool" where
  \<comment> \<open>a step that removes an annotation that was on display\<close>
  "effectiveClear st st' \<longleftrightarrow> decorations st \<noteq> [] \<and> decorations st' = []"

definition longResult :: jsstring where
  \<comment> \<open>a result of 81 letters, used as a concrete input below\<close>
  "longResult = replicate 81 0x61"

definition isLineTerminator :: "jschar \<Rightarrow> bool" where
  \<comment> \<open>the line terminators of ECMAScript: LF, CR, U+2028, U+2029\<close>
  "isLineTerminator c \<longleftrightarrow> c = 0x0A \<or> c = 0x0D \<or> c = 0x2028 \<or> c = 0x2029"

definition crlfResult :: jsstring where
  \<comment> \<open>two lines ended the way Windows programs end them: \<open>a\<close>, CR, LF, \<open>b\<close>\<close>
  "crlfResult = js ''a'' @ [0x0D, 0x0A] @ js ''b''"

definition noAnnotation :: editor_state where
  "noAnnotation = \<lparr>decorations = [], listeners = {}\<rparr>"

section \<open>The form extractor\<close>

text \<open>
  A document is its list of lines (without line terminators) and its end-of-line
  sequence. \<open>lineAt\<close> throws outside \<open>0 .. lineCount - 1\<close>. Line numbers are integers,
  as in the source, so that \<open>i - 1\<close> and the downward count to \<open>-1\<close> are what they are
  there.
\<close>

record document =
  doc_lines :: "jsstring list"
  doc_eol :: jsstring

definition lineCount :: "document \<Rightarrow> int" where
  "lineCount doc = int (length (doc_lines doc))"

definition lineAt :: "document \<Rightarrow> int \<Rightarrow> js_error + jsstring" where
  "lineAt doc i =
     (if 0 \<le> i \<and> i < lineCount doc then Inr (doc_lines doc ! nat i)
      else Inl (Error (js ''Illegal value for line'')))"

definition startsTopLevel :: "jsstring \<Rightarrow> bool" where
  \<comment> \<open>\<open>/^[a-zA-Z_:]/u.test(text)\<close>\<close>
  "startsTopLevel text =
     (case text of
        [] \<Rightarrow> False
      | c # cs \<Rightarrow> (0x61 \<le> c \<and> c \<le> 0x7A) \<or> (0x41 \<le> c \<and> c \<le> 0x5A) \<or> c = 0x5F \<or> c = 0x3A)"

definition isBlankOrComment :: "jsstring \<Rightarrow> bool" where
  \<comment> \<open>\<open>text.trim() === '' || text.trim().startsWith('//')\<close>\<close>
  "isBlankOrComment text \<longleftrightarrow> trim text = [] \<or> startsWith (trim text) (js ''//'')"

function scanUp :: "document \<Rightarrow> int \<Rightarrow> int \<Rightarrow> js_error + int" where
  \<comment> \<open>the first loop, at index \<open>i\<close>, with the current value of \<open>startLine\<close>\<close>
  "scanUp doc startLine i =
     (if i \<ge> 0 then
        (case lineAt doc i of
           Inl e \<Rightarrow> Inl e
         | Inr text \<Rightarrow>
             if isBlankOrComment text then scanUp doc startLine (i - 1)
             else if startsTopLevel text then Inr i
             else scanUp doc startLine (i - 1))
      else Inr startLine)"
  by pat_completeness auto
termination
  by (relation "measure (\<lambda>(doc, startLine, i). nat (i + 1))") auto

declare scanUp.simps [simp del]

record counters =
  braceCount :: int
  parenCount :: int
  foundBody :: bool

text \<open>
  The inner loop reads the line by code points; a code point outside the basic plane is
  two surrogate code units, neither of which is one of the four characters counted, so
  counting by code units gives the same counters.
\<close>

definition countChar :: "counters \<Rightarrow> jschar \<Rightarrow> counters" where
  "countChar st ch =
     (let st1 = (if ch = 0x7B then st\<lparr>braceCount := braceCount st + 1, foundBody := True\<rparr> else st);
          st2 = (if ch = 0x7D then st1\<lparr>braceCount := braceCount st1 - 1\<rparr> else st1);
          st3 = (if ch = 0x28 then st2\<lparr>parenCount := parenCount st2 + 1\<rparr> else st2);
          st4 = (if ch = 0x29 then st3\<lparr>parenCount := parenCount st3 - 1\<rparr> else st3)
      in st4)"

function scanDown :: "document \<Rightarrow> int \<Rightarrow> int \<Rightarrow> counters \<Rightarrow> int \<Rightarrow> js_error + int" where
  \<comment> \<open>the second loop, at index \<open>i\<close>, with the counters and the current value of
      \<open>endLine\<close>; the result is \<open>endLine\<close> when the loop is left\<close>
  "scanDown doc startLine i st endLine =
     (if i < lineCount doc then
        (case lineAt doc i of
           Inl e \<Rightarrow> Inl e
         | Inr text \<Rightarrow>
             (let st' = foldl countChar st text
              in if foundBody st' \<and> braceCount st' = 0 \<and> parenCount st' \<le> 0 then Inr i
                 else if i > startLine \<and> startsTopLevel text \<and> trim text \<noteq> []
                         \<and> \<not> startsWith (trim text) (js ''//'')
                 then Inr (i - 1)
                 else scanDown doc startLine (i + 1) st' i))
      else Inr endLine)"
  by pat_completeness auto
termination
  by (relation "measure (\<lambda>(doc, startLine, i, st, endLine). nat (lineCount doc - i))") auto

declare scanDown.simps [simp del]

definition noCount :: counters where
  "noCount = \<lparr>braceCount = 0, parenCount = 0, foundBody = False\<rparr>"

record range =
  start_line :: int
  start_character :: nat
  end_line :: int
  end_character :: nat

record form =
  form_text :: jsstring
  form_range :: range

definition getText :: "document \<Rightarrow> range \<Rightarrow> jsstring" where
  \<comment> \<open>\<open>document.getText(range)\<close> for a range inside the document whose start is not
      after its end\<close>
  "getText doc r =
     (let ls = doc_lines doc; s = nat (start_line r); e = nat (end_line r)
      in if s = e then take (end_character r - start_character r) (drop (start_character r) (ls ! s))
         else drop (start_character r) (ls ! s) @ doc_eol doc
              @ concat (map (\<lambda>l. l @ doc_eol doc) (take (e - s - 1) (drop (s + 1) ls)))
              @ take (end_character r) (ls ! e))"

definition matchesNamespace :: "jsstring \<Rightarrow> bool" where
  \<comment> \<open>\<open>text.match(/^::[^\s]+ ns$/)\<close>\<close>
  "matchesNamespace text \<longleftrightarrow>
     6 \<le> length text \<and> startsWith text (js ''::'') \<and> endsWith text (js '' ns'')
     \<and> list_all (\<lambda>c. \<not> isWhiteSpace c) (take (length text - 5) (drop 2 text))"

definition getTopLevelForm :: "document \<Rightarrow> int \<Rightarrow> js_error + form option" where
  \<comment> \<open>\<open>line\<close> is \<open>editor.selection.active.line\<close>; \<open>None\<close> is \<open>null\<close>\<close>
  "getTopLevelForm doc line =
     (case scanUp doc line line of
        Inl e \<Rightarrow> Inl e
      | Inr startLine \<Rightarrow>
          (case scanDown doc startLine startLine noCount line of
             Inl e \<Rightarrow> Inl e
           | Inr endLine \<Rightarrow>
               (case lineAt doc endLine of
                  Inl e \<Rightarrow> Inl e
                | Inr lastText \<Rightarrow>
                    (let r = \<lparr>start_line = startLine, start_character = 0,
                              end_line = endLine, end_character = length lastText\<rparr>;
                         text = trim (getText doc r)
                     in if endsWith text (js '' ns'') \<or> matchesNamespace text then Inr None
                        else Inr (Some \<lparr>form_text = text, form_range = r\<rparr>)))))"

subsection \<open>The end line, described without the loop\<close>

text \<open>
  \<open>charsThrough ls s i\<close> is the text of lines \<open>s\<close> to \<open>i\<close> in reading order;
  the nesting depths are the numbers of opening minus closing characters in it.
\<close>

definition charsThrough :: "jsstring list \<Rightarrow> nat \<Rightarrow> nat \<Rightarrow> jsstring" where
  "charsThrough ls s i = concat (take (Suc i - s) (drop s ls))"

definition braceNesting :: "jsstring \<Rightarrow> int" where
  "braceNesting cs = int (count_list cs 0x7B) - int (count_list cs 0x7D)"

definition parenNesting :: "jsstring \<Rightarrow> int" where
  "parenNesting cs = int (count_list cs 0x28) - int (count_list cs 0x29)"

definition bodyClosedAt :: "jsstring list \<Rightarrow> nat \<Rightarrow> nat \<Rightarrow> bool" where
  \<comment> \<open>at the end of line \<open>i\<close>: an opening brace has been read since line \<open>s\<close>, the
      brace nesting is zero and the parenthesis nesting is not positive\<close>
  "bodyClosedAt ls s i \<longleftrightarrow>
     0x7B \<in> set (charsThrough ls s i) \<and> braceNesting (charsThrough ls s i) = 0
     \<and> parenNesting (charsThrough ls s i) \<le> 0"

definition newUnitAt :: "jsstring list \<Rightarrow> nat \<Rightarrow> nat \<Rightarrow> bool" where
  \<comment> \<open>line \<open>i\<close> is after line \<open>s\<close> and begins a new top-level unit\<close>
  "newUnitAt ls s i \<longleftrightarrow> s < i \<and> startsTopLevel (ls ! i) \<and> \<not> isBlankOrComment (ls ! i)"

definition endLineOf :: "jsstring list \<Rightarrow> nat \<Rightarrow> nat" where
  "endLineOf ls s =
     (case find (\<lambda>i. bodyClosedAt ls s i \<or> newUnitAt ls s i) [s..<length ls] of
        None \<Rightarrow> length ls - 1
      | Some i \<Rightarrow> if bodyClosedAt ls s i then i else i - 1)"

text \<open>
  The same with the stop test read literally from the specification: the brace nesting
  is back at zero at the end of line \<open>i\<close> after having been positive somewhere before;
  parentheses play no part.
\<close>

definition wentPositive :: "jsstring \<Rightarrow> bool" where
  "wentPositive cs \<longleftrightarrow> list_ex (\<lambda>n. 0 < braceNesting (take n cs)) [0..<Suc (length cs)]"

definition returnedToZeroAt :: "jsstring list \<Rightarrow> nat \<Rightarrow> nat \<Rightarrow> bool" where
  "returnedToZeroAt ls s i \<longleftrightarrow>
     braceNesting (charsThrough ls s i) = 0 \<and> wentPositive (charsThrough ls s i)"

definition statedEndLineOf :: "jsstring list \<Rightarrow> nat \<Rightarrow> nat" where
  "statedEndLineOf ls s =
     (case find (\<lambda>i. returnedToZeroAt ls s i \<or> newUnitAt ls s i) [s..<length ls] of
        None \<Rightarrow> length ls - 1
      | Some i \<Rightarrow> if returnedToZeroAt ls s i then i else i - 1)"

definition neverBalanced :: "jsstring list \<Rightarrow> nat \<Rightarrow> bool" where
  \<comment> \<open>unbalanced braces: from line \<open>s\<close> on, the brace nesting is zero at no line end\<close>
  "neverBalanced ls s \<longleftrightarrow> list_all (\<lambda>i. braceNesting (charsThrough ls s i) \<noteq> 0) [s..<length ls]"

text \<open>Auxiliary notions for the proofs: the text before line \<open>i\<close>, and the end line
  found when the search starts at line \<open>i\<close>.\<close>

definition charsBefore :: "jsstring list \<Rightarrow> nat \<Rightarrow> nat \<Rightarrow> jsstring" where
  "charsBefore ls s i = concat (take (i - s) (drop s ls))"

definition stopAt :: "jsstring list \<Rightarrow> nat \<Rightarrow> nat \<Rightarrow> bool" where
  "stopAt ls s i \<longleftrightarrow> bodyClosedAt ls s i \<or> newUnitAt ls s i"

definition endLineFrom :: "jsstring list \<Rightarrow> nat \<Rightarrow> nat \<Rightarrow> nat" where
  "endLineFrom ls s i =
     (case find (stopAt ls s) [i..<length ls] of
        None \<Rightarrow> length ls - 1
      | Some j \<Rightarrow> if bodyClosedAt ls s j then j else j - 1)"

definition mkDoc :: "string list \<Rightarrow> document" where
  "mkDoc ls = \<lparr>doc_lines = map js ls, doc_eol = [0x0A]\<rparr>"

section \<open>The format bridge\<close>

text \<open>
  The state of \<open>formatHotDocument\<close> is the temporary file: \<open>None\<close> when it does not
  exist, otherwise its content, given as the string that reading the file as UTF-8
  yields. Writing a string as UTF-8 replaces every surrogate code unit that is not part
  of a pair by U+FFFD, so the file written from \<open>content\<close> reads back as
  \<open>toWellFormed content\<close>. \<open>writeFileSync\<close> throws when the file cannot be written;
  \<open>readFileSync\<close> and \<open>unlinkSync\<close> throw when the file does not exist. \<open>execFile\<close> is
  called in the promise executor after the file is written and throws there when it
  does not accept the command. The formatter is a function of the text in the file:
  what \<open>execFile\<close> passes to the callback (a process that cannot be started, a non-zero
  exit and a timeout all arrive as \<open>error\<close>), and the file the formatter leaves
  behind. An edit replaces the text between two offsets of the document.
\<close>

definition isHighSurrogate :: "jschar \<Rightarrow> bool" where
  "isHighSurrogate c \<longleftrightarrow> 0xD800 \<le> c \<and> c \<le> 0xDBFF"

definition isLowSurrogate :: "jschar \<Rightarrow> bool" where
  "isLowSurrogate c \<longleftrightarrow> 0xDC00 \<le> c \<and> c \<le> 0xDFFF"

fun toWellFormed :: "jsstring \<Rightarrow> jsstring" where
  "toWellFormed [] = []"
| "toWellFormed [c] = (if isHighSurrogate c \<or> isLowSurrogate c then [0xFFFD] else [c])"
| "toWellFormed (c # d # cs) =
     (if isHighSurrogate c \<and> isLowSurrogate d then c # d # toWellFormed cs
      else if isHighSurrogate c \<or> isLowSurrogate c then 0xFFFD # toWellFormed (d # cs)
      else c # toWellFormed (d # cs))"

record text_edit =
  range_start :: nat
  range_end :: nat
  newText :: jsstring

record fmt_outcome =
  fmt_error :: "js_error option"
  fmt_stderr :: jsstring
  fmt_file :: "jsstring option"

record fmt_env =
  writeFails :: bool
  logChannel :: bool
  fmtCommandPath :: jsstring
  tmpPath :: jsstring
  hotFmt :: "jsstring \<Rightarrow> fmt_outcome"

record fmt_result =
  settled :: "js_error + text_edit list"
  tmpFile :: "jsstring option"
  logged :: "jsstring list"

definition readFileSync :: "jsstring option \<Rightarrow> js_error + jsstring" where
  "readFileSync file = (case file of None \<Rightarrow> Inl (Error (js ''ENOENT'')) | Some c \<Rightarrow> Inr c)"

definition unlinkSync :: "jsstring option \<Rightarrow> js_error + jsstring option" where
  \<comment> \<open>the file afterwards, when the call does not throw\<close>
  "unlinkSync file = (case file of None \<Rightarrow> Inl (Error (js ''ENOENT'')) | Some c \<Rightarrow> Inr None)"

definition fullReplace :: "jsstring \<Rightarrow> jsstring \<Rightarrow> text_edit" where
  \<comment> \<open>\<open>TextEdit.replace(new Range(positionAt(0), positionAt(content.length)), formatted)\<close>\<close>
  "fullReplace content formatted =
     \<lparr>range_start = 0, range_end = length content, newText = formatted\<rparr>"

definition logIf :: "bool \<Rightarrow> jsstring list \<Rightarrow> jsstring list" where
  "logIf ch ls = (if ch then ls else [])"

definition formatErrorLog :: "fmt_env \<Rightarrow> js_error \<Rightarrow> jsstring \<Rightarrow> jsstring list" where
  "formatErrorLog env err stderr =
     logIf (logChannel env)
       ([js ''[hot] Format error: '' @ message err]
        @ (if stderr \<noteq> [] then [js ''[hot] stderr: '' @ stderr] else []))"

definition fmtCall :: "fmt_env \<Rightarrow> exec_call" where
  "fmtCall env =
     \<lparr>command = fmtCommandPath env, args = [js ''fmt'', tmpPath env], timeout = 10000,
      cwd = None\<rparr>"

text \<open>
  The \<open>try\<close> block of the callback. \<open>Inl\<close> is an exception leaving the block, with the
  file as it is at that moment; \<open>Inr\<close> is the value the promise is resolved with.
\<close>

definition formatTry ::
  "fmt_env \<Rightarrow> jsstring \<Rightarrow> fmt_outcome \<Rightarrow> (js_error + text_edit list) \<times> jsstring option \<times> jsstring list" where
  "formatTry env content out =
     (let file = fmt_file out; stderr = fmt_stderr out
      in case fmt_error out of
           Some err \<Rightarrow>
             (if stderr \<noteq> [] \<and> includesStr stderr (js ''CHAR-AUDIT'') \<and> file \<noteq> None then
                (case readFileSync file of
                   Inl e \<Rightarrow> (Inl e, file, [])
                 | Inr formatted \<Rightarrow>
                     (case unlinkSync file of
                        Inl e \<Rightarrow> (Inl e, file, [])
                      | Inr file' \<Rightarrow>
                          if formatted \<noteq> content
                          then (Inr [fullReplace content formatted], file', [])
                          else (Inr [], file', formatErrorLog env err stderr)))
              else (Inr [], file, formatErrorLog env err stderr))
         | None \<Rightarrow>
             (case readFileSync file of
                Inl e \<Rightarrow> (Inl e, file, [])
              | Inr formatted \<Rightarrow>
                  (case unlinkSync file of
                     Inl e \<Rightarrow> (Inl e, file, [])
                   | Inr file' \<Rightarrow>
                       if formatted \<noteq> content
                       then (Inr [fullReplace content formatted], file', [])
                       else (Inr [], file', []))))"

definition formatHotDocument :: "fmt_env \<Rightarrow> jsstring \<Rightarrow> fmt_result" where
  "formatHotDocument env content =
     (if writeFails env then
        \<comment> \<open>\<open>writeFileSync\<close> throws in the promise executor: the promise is rejected\<close>
        \<lparr>settled = Inl (Error (js ''EACCES'')), tmpFile = None, logged = []\<rparr>
      else if \<not> argsAccepted (fmtCall env) then
        \<comment> \<open>\<open>execFile\<close> throws in the promise executor, the file is written already\<close>
        \<lparr>settled = Inl (Error (js ''ERR_INVALID_ARG_VALUE'')),
         tmpFile = Some (toWellFormed content), logged = []\<rparr>
      else
        (case formatTry env content (hotFmt env (toWellFormed content)) of
           (Inr edits, file, lg) \<Rightarrow> \<lparr>settled = Inr edits, tmpFile = file, logged = lg\<rparr>
         | (Inl e, file, lg) \<Rightarrow>
             \<comment> \<open>\<open>catch\<close>: unlink, ignoring a failure; log; resolve with no edit\<close>
             \<lparr>settled = Inr [],
              tmpFile = (case unlinkSync file of Inl e' \<Rightarrow> file | Inr file' \<Rightarrow> file'),
              logged = lg @ logIf (logChannel env) [js ''[hot] Format exception: '' @ message e]\<rparr>))"

text \<open>Formatters and environments used as concrete inputs below.\<close>

definition parseErrorFmt :: "jsstring \<Rightarrow> fmt_outcome" where
  \<comment> \<open>the formatter rejects the text: non-zero exit, a message, the file untouched\<close>
  "parseErrorFmt c =
     \<lparr>fmt_error = Some (Error (js ''Command failed: hot fmt'')),
      fmt_stderr = js ''error: unexpected token'', fmt_file = Some c\<rparr>"

definition upperFmt :: "jsstring \<Rightarrow> fmt_outcome" where
  \<comment> \<open>a formatter that exits cleanly and rewrites the file as \<open>X\<close>\<close>
  "upperFmt c = \<lparr>fmt_error = None, fmt_stderr = [], fmt_file = Some (js ''X'')\<rparr>"

definition keepFmt :: "jsstring \<Rightarrow> fmt_outcome" where
  \<comment> \<open>a formatter that exits cleanly and leaves the file as it is\<close>
  "keepFmt c = \<lparr>fmt_error = None, fmt_stderr = [], fmt_file = Some c\<rparr>"

definition fmtEnv :: "bool \<Rightarrow> (jsstring \<Rightarrow> fmt_outcome) \<Rightarrow> fmt_env" where
  "fmtEnv failing f =
     \<lparr>writeFails = failing, logChannel = True, fmtCommandPath = js ''hot'',
      tmpPath = js ''/tmp/hot-fmt-1.hot'', hotFmt = f\<rparr>"

section \<open>Properties of the version comparison\<close>



lemma decimal_nonempty: "decimal n \<noteq> []"
  by (subst decimal.simps) simp

























lemma dotted_nonempty: "ns \<noteq> [] \<Longrightarrow> dotted ns \<noteq> []"
  by (cases ns rule: dotted.cases) (simp_all add: decimal_nonempty)
















lemmas version_eval =
  compareSemver_def versionParts_def js_def stripV_def isVersionSep_def component_def
  parseInt10_def isWhiteSpace_def isDigit_def digitsValue_def toDouble_def compareLoop.simps
  partAt_def doVersionCheck_def trim_def Let_def



text \<open>
  Beyond \<open>2^53\<close> the numbers are rounded as doubles are: \<open>2^53 + 1\<close> is read as
  \<open>2^53\<close>, so the two versions below compare equal.
\<close>

lemma compareSemver_rounds:
  "compareSemver (js ''9007199254740993'') (js ''9007199254740992'') = 0"
  by (simp add: version_eval bitLength.simps)

section \<open>Properties of the evaluation\<close>





lemma execFile_throws: "\<not> argsAccepted call \<Longrightarrow> \<exists>e. execFile sp call = Throws e"
  by (simp add: execFile_def)





lemma cliEval_throws:
  "execFile (spawn env) (evalCall env code) = Throws e \<Longrightarrow> fst (cliEval env code) = Rejected e"
  by (simp add: cliEval_def Let_def)












section \<open>Properties of the inline display\<close>

lemma collapseNewlines_no_lf: "0x0A \<notin> set (collapseNewlines d)"
  by (induction d) (auto simp: collapseNewlines_def)

lemma truncateDisplay_no_lf: "0x0A \<notin> set d \<Longrightarrow> 0x0A \<notin> set (truncateDisplay d)"
  by (auto simp: truncateDisplay_def dest: in_set_takeD)

lemma displayResult_no_lf: "0x0A \<notin> set (displayResult res out)"
  by (simp add: displayResult_def truncateDisplay_no_lf collapseNewlines_no_lf)

lemma truncateDisplay_long: "maxLen < length d \<Longrightarrow> length (truncateDisplay d) = 81"
  by (simp add: truncateDisplay_def maxLen_def)

lemma arrow_prefix: "length (js ''=> '') = 3" "0x0A \<notin> set (js ''=> '')"
  by (simp_all add: js_def)

text \<open>
  Claim C3, as amended. The annotation text never contains a line feed (U+000A), the one
  line terminator that the source replaces by the marker. When the composed text, after
  its line feeds are replaced, is longer than 80 code units, the truncated text has
  length 81. With a side-output that has a character other than white space, the
  annotation shows that text: length 81. With no side-output, or an empty one, the
  annotation shows \<open>=> \<close> followed by that text: length 84.
\<close>

theorem inline_text_length:
  "0x0A \<notin> set (contentText res out) \<and>
   (80 < length (collapseNewlines (composeDisplay res out)) \<longrightarrow>
      length (displayResult res out) = 81 \<and>
      (out = None \<or> out = Some [] \<longrightarrow>
         contentText res out = js ''=> '' @ displayResult res out \<and>
         length (contentText res out) = 84) \<and>
      (\<forall>s. out = Some s \<and> trim s \<noteq> [] \<longrightarrow>
         contentText res out = displayResult res out \<and> length (contentText res out) = 81))"
proof (intro conjI impI allI)
  show "0x0A \<notin> set (contentText res out)"
    by (simp add: contentText_def displayResult_no_lf arrow_prefix(2))
next
  assume "80 < length (collapseNewlines (composeDisplay res out))"
  then show len: "length (displayResult res out) = 81"
    by (simp add: displayResult_def truncateDisplay_long maxLen_def)
  {
    assume "out = None \<or> out = Some []"
    then have nt: "\<not> truthy out" by (auto simp: truthy_def)
    then show "contentText res out = js ''=> '' @ displayResult res out"
      by (simp add: contentText_def)
    with len show "length (contentText res out) = 84" by (simp add: arrow_prefix(1))
  }
  {
    fix s assume s: "out = Some s \<and> trim s \<noteq> []"
    then have "s \<noteq> []" by (auto simp: trim_def)
    with s have "truthy out" by (simp add: truthy_def)
    then show "contentText res out = displayResult res out" by (simp add: contentText_def)
    with len show "length (contentText res out) = 81" by simp
  }
qed

theorem inline_text_length_witness:
  "80 < length (collapseNewlines (composeDisplay longResult None)) \<and>
   length (contentText longResult None) = 84 \<and>
   80 < length (collapseNewlines (composeDisplay longResult (Some (js ''hi'')))) \<and>
   trim (js ''hi'') \<noteq> [] \<and>
   length (contentText longResult (Some (js ''hi''))) = 81"
proof -
  have a: "80 < length (collapseNewlines (composeDisplay longResult None))"
    unfolding composeDisplay_def collapseNewlines_def longResult_def
    by (simp add: length_concat comp_def sum_list_replicate)
  have t: "trim (js ''hi'') = js ''hi''"
    by (simp add: trim_def js_def isWhiteSpace_def)
  have l: "length longResult = 81" by (simp add: longResult_def)
  have "length (js ''null'') = 4" by (simp add: js_def)
  with l have n: "longResult \<noteq> js ''null''" and e: "longResult \<noteq> []" by auto
  have h: "js ''hi'' \<noteq> []" by (simp add: js_def)
  have "composeDisplay longResult (Some (js ''hi'')) = js ''hi'' @ js '' => '' @ longResult"
    using n e h by (simp add: composeDisplay_def t)
  then have "81 \<le> length (composeDisplay longResult (Some (js ''hi'')))"
    using l by simp
  moreover have "length d \<le> length (collapseNewlines d)" for d
    by (induction d) (auto simp: collapseNewlines_def)
  ultimately have "81 \<le> length (collapseNewlines (composeDisplay longResult (Some (js ''hi''))))"
    by (rule order_trans)
  then have b: "80 < length (collapseNewlines (composeDisplay longResult (Some (js ''hi''))))"
    by simp
  have ne: "trim (js ''hi'') \<noteq> []" using h by (simp add: t)
  from inline_text_length [of longResult None] a
  have "length (contentText longResult None) = 84" by blast
  moreover
  from inline_text_length [of longResult "Some (js ''hi'')"] b ne
  have "length (contentText longResult (Some (js ''hi''))) = 81" by blast
  ultimately show ?thesis using a b ne by blast
qed

text \<open>
  Claim C3 as stated fails twice. For a result of 81 letters and no side-output the text
  on display has 84 code units, the prefix \<open>=> \<close> being added after the truncation.
  And for the result \<open>a\<close>, CR, LF, \<open>b\<close> the text on display is \<open>=> a\<close>, CR, space,
  marker, space, \<open>b\<close>: the pattern of the replacement is the line feed alone, and the
  carriage return, a line terminator, stays in the text.
\<close>

theorem inline_text_length_counterexample:
  "80 < length (collapseNewlines (composeDisplay longResult None)) \<and>
   length (contentText longResult None) = 84 \<and>
   length (contentText longResult None) \<noteq> 81 \<and>
   contentText crlfResult None = js ''=> a'' @ [0x0D, 0x20, 0x21B5, 0x20] @ js ''b'' \<and>
   isLineTerminator 0x0D \<and>
   0x0D \<in> set (contentText crlfResult None)"
proof -
  have "80 < length (collapseNewlines (composeDisplay longResult None)) \<and>
      length (contentText longResult None) = 84 \<and>
      length (contentText longResult None) \<noteq> 81"
    unfolding contentText_def displayResult_def truncateDisplay_def composeDisplay_def
      collapseNewlines_def longResult_def truthy_def maxLen_def js_def
    by (simp add: length_concat comp_def sum_list_replicate)
  moreover have c: "contentText crlfResult None = js ''=> a'' @ [0x0D, 0x20, 0x21B5, 0x20] @ js ''b''"
    by (simp add: contentText_def displayResult_def truncateDisplay_def composeDisplay_def
        collapseNewlines_def crlfResult_def truthy_def maxLen_def js_def)
  moreover have "isLineTerminator 0x0D" by (simp add: isLineTerminator_def)
  moreover have "0x0D \<in> set (contentText crlfResult None)" unfolding c by simp
  ultimately show ?thesis by blast
qed

text \<open>
  Claim C7, at the input where the code departs from it: result \<open>2\<close> with a side-output
  that is a single line feed. The side-output is non-empty, so no \<open>=> \<close> is put in
  front, and it is blank, so it is not shown either: the annotation is the bare \<open>2\<close>.
  With no side-output the annotation is \<open>=> 2\<close>, and with side-output \<open>hi\<close> plus a line
  feed it is \<open>hi => 2\<close>.
\<close>

theorem contentText_blank_stdout:
  "contentText (js ''2'') (Some [0x0A]) = js ''2'' \<and>
   contentText (js ''2'') None = js ''=> 2'' \<and>
   contentText (js ''2'') (Some (js ''hi'' @ [0x0A])) = js ''hi => 2''"
  by (simp add: contentText_def displayResult_def truncateDisplay_def composeDisplay_def
      collapseNewlines_def truthy_def maxLen_def js_def trim_def isWhiteSpace_def)

lemma contentText_cases:
  "(out = None \<or> out = Some [] \<longrightarrow>
      contentText res out = js ''=> '' @ truncateDisplay (collapseNewlines res)) \<and>
   (\<forall>s. out = Some s \<and> trim s \<noteq> [] \<longrightarrow>
      contentText res out =
        truncateDisplay (collapseNewlines
          (trim s @ (if res \<noteq> [] \<and> res \<noteq> js ''null'' then js '' => '' @ res else [])))) \<and>
   (\<forall>s. out = Some s \<and> s \<noteq> [] \<and> trim s = [] \<longrightarrow>
      contentText res out = truncateDisplay (collapseNewlines res))"
  by (auto simp: contentText_def displayResult_def composeDisplay_def truthy_def trim_def)

text \<open>
  The two triggers of one annotation, taken one after the other with no other
  annotation shown in between: whichever runs first removes the annotation, and the
  other one then changes nothing.
\<close>

lemma clear_back_to_back:
  "effectiveClear (showInlineResult k st endPos res isError out)
       (onDidChangeTextDocument k True (showInlineResult k st endPos res isError out)) \<and>
   onTimeout k (onDidChangeTextDocument k True (showInlineResult k st endPos res isError out))
     = onDidChangeTextDocument k True (showInlineResult k st endPos res isError out) \<and>
   effectiveClear (showInlineResult k st endPos res isError out)
       (onTimeout k (showInlineResult k st endPos res isError out)) \<and>
   onDidChangeTextDocument k sameDocument (onTimeout k (showInlineResult k st endPos res isError out))
     = onTimeout k (showInlineResult k st endPos res isError out)"
  by (simp add: effectiveClear_def showInlineResult_def onDidChangeTextDocument_def onTimeout_def)

text \<open>
  Claim C6, at the run where the code departs from it. Annotation 1 is shown; an edit
  of the document removes it, which is its one effective clear, and disposes its
  listener. Annotation 2 is shown before the timer of annotation 1 has run out. The
  timer is never cancelled and all annotations use the one decoration type, so when it
  fires it removes annotation 2: the second trigger of annotation 1 is a second
  effective clear and not a step that changes nothing.
\<close>

theorem stale_timer_clears_next_annotation:
  "effectiveClear
     (showInlineResult 1 noAnnotation (0, 3) (js ''1'') False None)
     (onDidChangeTextDocument 1 True (showInlineResult 1 noAnnotation (0, 3) (js ''1'') False None)) \<and>
   decorations
     (showInlineResult 2
        (onDidChangeTextDocument 1 True (showInlineResult 1 noAnnotation (0, 3) (js ''1'') False None))
        (0, 3) (js ''2'') False None)
     = [\<lparr>at_line = 0, at_character = 3, text_after = js ''=> 2'', error_color = False\<rparr>] \<and>
   effectiveClear
     (showInlineResult 2
        (onDidChangeTextDocument 1 True (showInlineResult 1 noAnnotation (0, 3) (js ''1'') False None))
        (0, 3) (js ''2'') False None)
     (onTimeout 1
        (showInlineResult 2
           (onDidChangeTextDocument 1 True (showInlineResult 1 noAnnotation (0, 3) (js ''1'') False None))
           (0, 3) (js ''2'') False None)) \<and>
   decorations
     (onTimeout 1
        (showInlineResult 2
           (onDidChangeTextDocument 1 True (showInlineResult 1 noAnnotation (0, 3) (js ''1'') False None))
           (0, 3) (js ''2'') False None)) = []"
  by (simp add: effectiveClear_def showInlineResult_def onDidChangeTextDocument_def onTimeout_def
        noAnnotation_def contentText_def displayResult_def truncateDisplay_def composeDisplay_def
        collapseNewlines_def truthy_def maxLen_def js_def)

section \<open>Properties of the form extractor\<close>

lemma charsThrough_step:
  "s \<le> i \<Longrightarrow> i < length ls \<Longrightarrow> charsThrough ls s i = charsBefore ls s i @ ls ! i"
proof -
  assume a: "s \<le> i" "i < length ls"
  then have "Suc i - s = Suc (i - s)" by simp
  moreover have "i - s < length (drop s ls)" using a by simp
  ultimately have "take (Suc i - s) (drop s ls) = take (i - s) (drop s ls) @ [drop s ls ! (i - s)]"
    by (simp add: take_Suc_conv_app_nth)
  moreover have "drop s ls ! (i - s) = ls ! i" using a by simp
  ultimately show ?thesis by (simp add: charsThrough_def charsBefore_def)
qed

lemma charsBefore_Suc: "charsBefore ls s (Suc i) = charsThrough ls s i"
  by (simp add: charsBefore_def charsThrough_def)

lemma charsBefore_start: "charsBefore ls s s = []"
  by (simp add: charsBefore_def)

lemma countChar_fold:
  "foldl countChar st cs =
     \<lparr>braceCount = braceCount st + braceNesting cs,
      parenCount = parenCount st + parenNesting cs,
      foundBody = (foundBody st \<or> 0x7B \<in> set cs)\<rparr>"
proof (induction cs arbitrary: st)
  case Nil
  then show ?case by (simp add: braceNesting_def parenNesting_def)
next
  case (Cons c cs)
  show ?case
    unfolding foldl_Cons Cons.IH
    by (auto simp: countChar_def Let_def braceNesting_def parenNesting_def)
qed

lemma endLineOf_from: "endLineOf ls s = endLineFrom ls s s"
  by (simp add: endLineOf_def endLineFrom_def stopAt_def [abs_def])

lemma endLineFrom_stop:
  "i < length ls \<Longrightarrow> stopAt ls s i \<Longrightarrow>
   endLineFrom ls s i = (if bodyClosedAt ls s i then i else i - 1)"
  by (simp add: endLineFrom_def upt_conv_Cons)

lemma endLineFrom_skip:
  "i < length ls \<Longrightarrow> \<not> stopAt ls s i \<Longrightarrow> endLineFrom ls s i = endLineFrom ls s (Suc i)"
  by (simp add: endLineFrom_def upt_conv_Cons)

lemma endLineFrom_end: "endLineFrom ls s (length ls) = length ls - 1"
  by (simp add: endLineFrom_def)

lemma lineAt_in: "i < length (doc_lines doc) \<Longrightarrow> lineAt doc (int i) = Inr (doc_lines doc ! i)"
  by (simp add: lineAt_def lineCount_def)

lemma scanDown_from:
  assumes "s < length (doc_lines doc)" and "s \<le> i" and "i \<le> length (doc_lines doc)"
    and "st = \<lparr>braceCount = braceNesting (charsBefore (doc_lines doc) s i),
               parenCount = parenNesting (charsBefore (doc_lines doc) s i),
               foundBody = (0x7B \<in> set (charsBefore (doc_lines doc) s i))\<rparr>"
    and "i = length (doc_lines doc) \<Longrightarrow> e = int (length (doc_lines doc)) - 1"
  shows "scanDown doc (int s) (int i) st e = Inr (int (endLineFrom (doc_lines doc) s i))"
  using assms
proof (induction "length (doc_lines doc) - i" arbitrary: i st e)
  case 0
  then have i: "i = length (doc_lines doc)" by simp
  have "scanDown doc (int s) (int i) st e = Inr e"
    by (subst scanDown.simps) (simp add: lineCount_def i)
  moreover have "e = int (length (doc_lines doc) - 1)" using "0.prems" i by (simp add: of_nat_diff)
  ultimately show ?case using i by (simp add: endLineFrom_end)
next
  case (Suc d)
  let ?ls = "doc_lines doc"
  from Suc.hyps(2) have lt: "i < length ?ls" by simp
  let ?st' = "foldl countChar st (?ls ! i)"
  have st': "?st' = \<lparr>braceCount = braceNesting (charsThrough ?ls s i),
                      parenCount = parenNesting (charsThrough ?ls s i),
                      foundBody = (0x7B \<in> set (charsThrough ?ls s i))\<rparr>"
    unfolding countChar_fold Suc.prems(4) charsThrough_step [OF Suc.prems(2) lt]
    by (auto simp: braceNesting_def parenNesting_def)
  have closed: "(foundBody ?st' \<and> braceCount ?st' = 0 \<and> parenCount ?st' \<le> 0) = bodyClosedAt ?ls s i"
    unfolding st' by (simp add: bodyClosedAt_def)
  have unit: "(int i > int s \<and> startsTopLevel (?ls ! i) \<and> trim (?ls ! i) \<noteq> []
               \<and> \<not> startsWith (trim (?ls ! i)) (js ''//'')) = newUnitAt ?ls s i"
    by (auto simp: newUnitAt_def isBlankOrComment_def)
  have unfold: "scanDown doc (int s) (int i) st e =
      (if bodyClosedAt ?ls s i then Inr (int i)
       else if newUnitAt ?ls s i then Inr (int i - 1)
       else scanDown doc (int s) (int i + 1) ?st' (int i))"
    using lt closed unit
    by (subst scanDown.simps) (simp add: lineCount_def lineAt_in Let_def)
  show ?case
  proof (cases "stopAt ?ls s i")
    case True
    show ?thesis
    proof (cases "bodyClosedAt ?ls s i")
      case True
      then show ?thesis using unfold endLineFrom_stop [OF lt] by (simp add: stopAt_def)
    next
      case False
      with True have nu: "newUnitAt ?ls s i" by (simp add: stopAt_def)
      then have "0 < i" by (simp add: newUnitAt_def)
      then have "int (i - 1) = int i - 1" by (simp add: of_nat_diff)
      then show ?thesis using unfold False nu endLineFrom_stop [OF lt True] by simp
    qed
  next
    case False
    then have no: "\<not> bodyClosedAt ?ls s i" "\<not> newUnitAt ?ls s i" by (simp_all add: stopAt_def)
    have "scanDown doc (int s) (int (Suc i)) ?st' (int i) = Inr (int (endLineFrom ?ls s (Suc i)))"
    proof (rule Suc.hyps(1))
      show "d = length ?ls - Suc i" using Suc.hyps(2) by simp
      show "s < length ?ls" by (rule Suc.prems(1))
      show "s \<le> Suc i" using Suc.prems(2) by simp
      show "Suc i \<le> length ?ls" using lt by simp
      show "?st' = \<lparr>braceCount = braceNesting (charsBefore ?ls s (Suc i)),
                     parenCount = parenNesting (charsBefore ?ls s (Suc i)),
                     foundBody = (0x7B \<in> set (charsBefore ?ls s (Suc i)))\<rparr>"
        by (simp only: st' charsBefore_Suc)
      show "int i = int (length ?ls) - 1" if "Suc i = length ?ls"
        using that by simp
    qed
    moreover have "int (Suc i) = int i + 1" by simp
    ultimately show ?thesis
      using unfold no endLineFrom_skip [OF lt False] by (simp add: add.commute)
  qed
qed

lemma scanDown_endLineOf:
  "s < length (doc_lines doc) \<Longrightarrow>
   scanDown doc (int s) (int s) noCount e = Inr (int (endLineOf (doc_lines doc) s))"
  unfolding endLineOf_from
  by (rule scanDown_from)
     (simp_all add: noCount_def charsBefore_start braceNesting_def parenNesting_def)

lemma scanUp_bounds:
  assumes "i < lineCount doc" and "0 \<le> sl" and "i \<le> sl"
  shows "\<exists>s. scanUp doc sl i = Inr s \<and> 0 \<le> s \<and> s \<le> sl"
  using assms
proof (induction "nat (i + 1)" arbitrary: i)
  case 0
  then have "i < 0" by simp
  then have "scanUp doc sl i = Inr sl" by (subst scanUp.simps) simp
  with "0.prems" show ?case by simp
next
  case (Suc d)
  then have i: "0 \<le> i" by simp
  with Suc.prems have at: "lineAt doc i = Inr (doc_lines doc ! nat i)"
    by (simp add: lineAt_def)
  have rec: "\<exists>s. scanUp doc sl (i - 1) = Inr s \<and> 0 \<le> s \<and> s \<le> sl"
    using Suc.hyps(2) Suc.prems by (intro Suc.hyps(1)) simp_all
  show ?case
  proof (cases "\<not> isBlankOrComment (doc_lines doc ! nat i) \<and> startsTopLevel (doc_lines doc ! nat i)")
    case True
    then have "scanUp doc sl i = Inr i"
      using i at by (subst scanUp.simps) simp
    with i Suc.prems show ?thesis by simp
  next
    case False
    then have "scanUp doc sl i = scanUp doc sl (i - 1)"
      using i at by (subst scanUp.simps) auto
    with rec show ?thesis by simp
  qed
qed

lemma endLineFrom_bounds:
  assumes "s < length ls"
  shows "s \<le> endLineFrom ls s s \<and> endLineFrom ls s s < length ls"
proof (cases "find (stopAt ls s) [s..<length ls]")
  case None
  with assms show ?thesis by (auto simp: endLineFrom_def)
next
  case (Some j)
  then have j: "j \<in> set [s..<length ls]" and st: "stopAt ls s j"
    by (auto simp: find_Some_iff)
  then have r: "s \<le> j" "j < length ls" by simp_all
  show ?thesis
  proof (cases "bodyClosedAt ls s j")
    case True
    with Some r show ?thesis by (simp add: endLineFrom_def)
  next
    case False
    with st have "s < j" by (simp add: stopAt_def newUnitAt_def)
    with Some False r show ?thesis by (auto simp: endLineFrom_def)
  qed
qed

lemma endLineOf_bounds: "s < length ls \<Longrightarrow> s \<le> endLineOf ls s \<and> endLineOf ls s < length ls"
  by (simp add: endLineOf_from endLineFrom_bounds)

lemma bodyClosedAt_balanced: "bodyClosedAt ls s i \<Longrightarrow> braceNesting (charsThrough ls s i) = 0"
  by (simp add: bodyClosedAt_def)

lemma endLineOf_neverBalanced:
  assumes "neverBalanced ls s"
  shows "endLineOf ls s =
           (case find (newUnitAt ls s) [s..<length ls] of None \<Rightarrow> length ls - 1 | Some j \<Rightarrow> j - 1)"
proof -
  have no: "\<not> bodyClosedAt ls s j" if "j \<in> set [s..<length ls]" for j
    using assms that bodyClosedAt_balanced [of ls s j]
    by (auto simp: neverBalanced_def list_all_iff)
  then have f: "find (\<lambda>i. bodyClosedAt ls s i \<or> newUnitAt ls s i) [s..<length ls]
           = find (newUnitAt ls s) [s..<length ls]"
    by (intro find_cong) auto
  show ?thesis
  proof (cases "find (newUnitAt ls s) [s..<length ls]")
    case None
    with f show ?thesis by (simp add: endLineOf_def)
  next
    case (Some j)
    then have "j \<in> set [s..<length ls]" by (auto simp: find_Some_iff)
    with no have "\<not> bodyClosedAt ls s j" by simp
    with f Some show ?thesis by (simp add: endLineOf_def)
  qed
qed

lemma getTopLevelForm_scans:
  assumes "0 \<le> line" and "line < lineCount doc"
  shows "\<exists>s. scanUp doc line line = Inr (int s) \<and> int s \<le> line \<and>
             scanDown doc (int s) (int s) noCount line = Inr (int (endLineOf (doc_lines doc) s)) \<and>
             (\<exists>r. getTopLevelForm doc line = Inr r)"
proof -
  from scanUp_bounds [OF assms(2) assms(1) order_refl]
  obtain s' where s': "scanUp doc line line = Inr s'" "0 \<le> s'" "s' \<le> line" by blast
  define s where "s = nat s'"
  with s' have eq: "s' = int s" by simp
  have lt: "s < length (doc_lines doc)"
    using s' assms(2) by (simp add: s_def lineCount_def)
  have down: "scanDown doc (int s) (int s) noCount line = Inr (int (endLineOf (doc_lines doc) s))"
    using lt by (rule scanDown_endLineOf)
  have "endLineOf (doc_lines doc) s < length (doc_lines doc)"
    using endLineOf_bounds [OF lt] by simp
  then have at: "lineAt doc (int (endLineOf (doc_lines doc) s))
                   = Inr (doc_lines doc ! endLineOf (doc_lines doc) s)"
    by (rule lineAt_in)
  have "\<exists>r. getTopLevelForm doc line = Inr r"
    unfolding getTopLevelForm_def s'(1) eq
    by (simp add: down at Let_def)
  with s' eq down show ?thesis by auto
qed

text \<open>
  Claim C2, as amended. In the downward scan from a start line \<open>s\<close>, the end line is
  the first line at whose end an opening brace has been read since the start line, the
  brace nesting is zero and the parenthesis nesting is not positive; or the line before
  the first later line that begins a new top-level unit (first character a letter, an
  underscore or a colon; not blank, not a comment); whichever line the scan reaches
  first, the balance being tested first on each line; and the last line of the document
  when the scan reaches neither. For the 3-line input with the cursor on the body line
  the extractor returns the full span, lines 0 to 2.
\<close>

theorem scanDown_end_line:
  "(s < length (doc_lines doc) \<longrightarrow>
      scanDown doc (int s) (int s) noCount e = Inr (int (endLineOf (doc_lines doc) s))) \<and>
   getTopLevelForm (mkDoc [''x fn (n: Int): Int {'', ''  n'', ''}'']) 1 =
     Inr (Some \<lparr>form_text = js ''x fn (n: Int): Int {'' @ [0x0A] @ js ''  n'' @ [0x0A] @ js ''}'',
                form_range = \<lparr>start_line = 0, start_character = 0,
                               end_line = 2, end_character = 1\<rparr>\<rparr>)"
proof (intro conjI impI)
  assume "s < length (doc_lines doc)"
  then show "scanDown doc (int s) (int s) noCount e = Inr (int (endLineOf (doc_lines doc) s))"
    by (rule scanDown_endLineOf)
next
  show "getTopLevelForm (mkDoc [''x fn (n: Int): Int {'', ''  n'', ''}'']) 1 =
     Inr (Some \<lparr>form_text = js ''x fn (n: Int): Int {'' @ [0x0A] @ js ''  n'' @ [0x0A] @ js ''}'',
                form_range = \<lparr>start_line = 0, start_character = 0,
                               end_line = 2, end_character = 1\<rparr>\<rparr>)"
    by code_simp
qed

theorem scanDown_end_line_witness:
  "0 < length (doc_lines (mkDoc [''f ( {}'', ''  g''])) \<and>
   scanDown (mkDoc [''f ( {}'', ''  g'']) 0 0 noCount 0 = Inr 1"
proof -
  have l: "0 < length (doc_lines (mkDoc [''f ( {}'', ''  g'']))" by (simp add: mkDoc_def)
  have e: "endLineOf (doc_lines (mkDoc [''f ( {}'', ''  g''])) 0 = 1" by code_simp
  from scanDown_end_line [of 0 "mkDoc [''f ( {}'', ''  g'']" 0] l
  have "scanDown (mkDoc [''f ( {}'', ''  g'']) (int 0) (int 0) noCount 0
          = Inr (int (endLineOf (doc_lines (mkDoc [''f ( {}'', ''  g''])) 0))"
    by blast
  with l show ?thesis unfolding e by simp
qed

text \<open>
  Claim C2 as stated fails on two documents. In \<open>f ( {}\<close> followed by an indented line,
  the brace nesting is back at zero at the end of line 0 after having been positive, so
  the stated end line is 0; the scan goes on, because a parenthesis is still open, and
  ends at line 1. In \<open>x }{\<close> followed by an indented line the brace nesting is never
  positive, so the stated end line is the last line, 1; the scan stops at line 0, where
  an opening brace has been read and the nesting is zero.
\<close>

theorem scanDown_end_line_counterexample:
  "scanDown (mkDoc [''f ( {}'', ''  g'']) 0 0 noCount 0 = Inr 1 \<and>
   statedEndLineOf (doc_lines (mkDoc [''f ( {}'', ''  g''])) 0 = 0 \<and>
   scanDown (mkDoc [''x }{'', ''  g'']) 0 0 noCount 0 = Inr 0 \<and>
   statedEndLineOf (doc_lines (mkDoc [''x }{'', ''  g''])) 0 = 1"
  by code_simp

text \<open>
  Claim C8, as amended. For every document and every cursor line of the document, the
  extractor returns a span or no match and throws nothing. As \<open>lineAt\<close> throws for an
  index outside the document and the extractor passes every exception on, this also
  says that each index it reads is inside the document; the start line found is at or
  above the cursor and the end line is between the start line and the last line. When
  the braces are unbalanced (the brace nesting is zero at no line end from the start
  line on), the scan ends at the line before the next line that begins a top-level
  unit, and at the last line of the document when there is no such line.
\<close>

theorem getTopLevelForm_total:
  "0 \<le> line \<and> line < lineCount doc \<longrightarrow>
     (\<exists>r. getTopLevelForm doc line = Inr r) \<and>
     (\<exists>s e. scanUp doc line line = Inr (int s) \<and> int s \<le> line \<and>
            scanDown doc (int s) (int s) noCount line = Inr (int e) \<and>
            s \<le> e \<and> e < length (doc_lines doc) \<and>
            (neverBalanced (doc_lines doc) s \<longrightarrow>
               e = (case find (newUnitAt (doc_lines doc) s) [s..<length (doc_lines doc)] of
                      None \<Rightarrow> length (doc_lines doc) - 1
                    | Some j \<Rightarrow> j - 1)))"
proof
  assume a: "0 \<le> line \<and> line < lineCount doc"
  then obtain s where s: "scanUp doc line line = Inr (int s)" "int s \<le> line"
      "scanDown doc (int s) (int s) noCount line = Inr (int (endLineOf (doc_lines doc) s))"
      "\<exists>r. getTopLevelForm doc line = Inr r"
    using getTopLevelForm_scans by blast
  from s(2) a have lt: "s < length (doc_lines doc)" by (simp add: lineCount_def)
  show "(\<exists>r. getTopLevelForm doc line = Inr r) \<and>
     (\<exists>s e. scanUp doc line line = Inr (int s) \<and> int s \<le> line \<and>
            scanDown doc (int s) (int s) noCount line = Inr (int e) \<and>
            s \<le> e \<and> e < length (doc_lines doc) \<and>
            (neverBalanced (doc_lines doc) s \<longrightarrow>
               e = (case find (newUnitAt (doc_lines doc) s) [s..<length (doc_lines doc)] of
                      None \<Rightarrow> length (doc_lines doc) - 1
                    | Some j \<Rightarrow> j - 1)))"
    using s endLineOf_bounds [OF lt] endLineOf_neverBalanced [of "doc_lines doc" s]
    by blast
qed

theorem getTopLevelForm_total_witness:
  "(0::int) \<le> 1 \<and> 1 < lineCount (mkDoc [''f {'', ''  x'']) \<and>
   neverBalanced (doc_lines (mkDoc [''f {'', ''  x''])) 0 \<and>
   (\<exists>r. getTopLevelForm (mkDoc [''f {'', ''  x'']) 1 = Inr r) \<and>
   scanDown (mkDoc [''f {'', ''  x'']) 0 0 noCount 1 = Inr 1"
proof -
  let ?d = "mkDoc [''f {'', ''  x'']"
  have a: "(0::int) \<le> 1 \<and> 1 < lineCount ?d" by (simp add: lineCount_def mkDoc_def)
  have nb: "neverBalanced (doc_lines ?d) 0" by code_simp
  have up: "scanUp ?d 1 1 = Inr 0" by code_simp
  have f: "(case find (newUnitAt (doc_lines ?d) 0) [0..<length (doc_lines ?d)] of
              None \<Rightarrow> length (doc_lines ?d) - 1 | Some j \<Rightarrow> j - 1) = 1"
    by code_simp
  from getTopLevelForm_total [of 1 ?d] a
  obtain s e where r: "\<exists>r. getTopLevelForm ?d 1 = Inr r"
      and se: "scanUp ?d 1 1 = Inr (int s)"
        "scanDown ?d (int s) (int s) noCount 1 = Inr (int e)"
        "neverBalanced (doc_lines ?d) s \<longrightarrow>
           e = (case find (newUnitAt (doc_lines ?d) s) [s..<length (doc_lines ?d)] of
                  None \<Rightarrow> length (doc_lines ?d) - 1 | Some j \<Rightarrow> j - 1)"
    by blast
  from se(1) up have s0: "s = 0" by simp
  with se(3) nb f have "e = 1" by simp
  with se(2) s0 have "scanDown ?d 0 0 noCount 1 = Inr 1" by simp
  with a nb r show ?thesis by blast
qed

text \<open>
  Claim C8 as stated fails on the document \<open>f {\<close>, \<open>g 1\<close>, \<open>h 2\<close> with the cursor on
  line 0: the braces never balance, yet the scan does not run to the end of the
  document (line 2); it stops at \<open>g 1\<close> and the span is line 0 alone.
\<close>

theorem getTopLevelForm_total_counterexample:
  "neverBalanced (doc_lines (mkDoc [''f {'', ''g 1'', ''h 2''])) 0 \<and>
   scanDown (mkDoc [''f {'', ''g 1'', ''h 2'']) 0 0 noCount 0 = Inr 0 \<and>
   lineCount (mkDoc [''f {'', ''g 1'', ''h 2'']) - 1 = 2 \<and>
   getTopLevelForm (mkDoc [''f {'', ''g 1'', ''h 2'']) 0 =
     Inr (Some \<lparr>form_text = js ''f {'',
                form_range = \<lparr>start_line = 0, start_character = 0,
                               end_line = 0, end_character = 3\<rparr>\<rparr>)"
  by code_simp

section \<open>Properties of the format bridge\<close>

lemma toWellFormed_ascii: "toWellFormed (js ''x 1'') = js ''x 1''"
  by (simp add: js_def isHighSurrogate_def isLowSurrogate_def)

lemma fmtEnv_accepted: "argsAccepted (fmtCall (fmtEnv failing f))"
  by (simp add: argsAccepted_def fmtCall_def fmtEnv_def hasNul_def js_def)

lemma formatHotDocument_edits:
  assumes "\<not> writeFails env" and "argsAccepted (fmtCall env)"
  shows "settled (formatHotDocument env content) =
           Inr (case fmt_file (hotFmt env (toWellFormed content)) of
                  None \<Rightarrow> []
                | Some formatted \<Rightarrow>
                    if (fmt_error (hotFmt env (toWellFormed content)) = None
                        \<or> (fmt_stderr (hotFmt env (toWellFormed content)) \<noteq> []
                            \<and> includesStr (fmt_stderr (hotFmt env (toWellFormed content))) (js ''CHAR-AUDIT'')))
                       \<and> formatted \<noteq> content
                    then [fullReplace content formatted] else [])"
  using assms
  by (auto simp: formatHotDocument_def formatTry_def readFileSync_def unlinkSync_def Let_def
           split: option.splits)

lemma formatHotDocument_tmpFile:
  "tmpFile (formatHotDocument env content) =
     (if writeFails env then None
      else if \<not> argsAccepted (fmtCall env) then Some (toWellFormed content)
      else if fmt_error (hotFmt env (toWellFormed content)) \<noteq> None
         \<and> \<not> (fmt_stderr (hotFmt env (toWellFormed content)) \<noteq> []
               \<and> includesStr (fmt_stderr (hotFmt env (toWellFormed content))) (js ''CHAR-AUDIT''))
      then fmt_file (hotFmt env (toWellFormed content)) else None)"
  by (auto simp: formatHotDocument_def formatTry_def readFileSync_def unlinkSync_def Let_def
           split: option.splits)

text \<open>
  A document that holds a surrogate code unit without its partner does not survive the
  file: it reads back with U+FFFD in its place and differs from the document, so that a
  formatter that changes nothing still yields one edit.
\<close>

lemma formatHotDocument_lone_surrogate:
  "settled (formatHotDocument (fmtEnv False keepFmt) [0xD800]) = Inr [fullReplace [0xD800] [0xFFFD]]"
proof -
  have w: "\<not> writeFails (fmtEnv False keepFmt)" by (simp add: fmtEnv_def)
  have h: "hotFmt (fmtEnv False keepFmt) = keepFmt" by (simp add: fmtEnv_def)
  show ?thesis
    unfolding formatHotDocument_edits [OF w fmtEnv_accepted] h
    by (simp add: keepFmt_def isHighSurrogate_def)
qed

text \<open>
  Claim C4, at the input where the code departs from it: the formatter exits with a
  non-zero code and a message without the marker, leaving the file as written. The
  callback logs, resolves with no edit and returns; no \<open>unlinkSync\<close> is on this path,
  and after the promise has settled the temporary file still exists with the text of
  the document.
\<close>

theorem formatHotDocument_leaves_file:
  "settled (formatHotDocument (fmtEnv False parseErrorFmt) (js ''x 1'')) = Inr [] \<and>
   tmpFile (formatHotDocument (fmtEnv False parseErrorFmt) (js ''x 1'')) = Some (js ''x 1'')"
proof -
  have w: "\<not> writeFails (fmtEnv False parseErrorFmt)" by (simp add: fmtEnv_def)
  have h: "hotFmt (fmtEnv False parseErrorFmt) = parseErrorFmt" by (simp add: fmtEnv_def)
  have a: "\<not> includesStr (js ''error: unexpected token'') (js ''CHAR-AUDIT'')"
    by (simp add: js_def startsWith_def)
  show ?thesis
    using w fmtEnv_accepted [of False parseErrorFmt] a
    by (simp add: formatHotDocument_def formatTry_def h toWellFormed_ascii parseErrorFmt_def Let_def)
qed

text \<open>
  Claim C5, at the input where the code departs from it: the temporary file cannot be
  written. \<open>writeFileSync\<close> is called in the promise executor, outside the \<open>try\<close> block
  of the callback, so its exception rejects the promise that \<open>formatHotDocument\<close>
  returns. Whenever the file can be written and \<open>execFile\<close> accepts the command, the
  promise is resolved, with the edits that the claim describes (lemma
  \<open>formatHotDocument_edits\<close>).
\<close>

theorem formatHotDocument_rejects:
  "settled (formatHotDocument (fmtEnv True upperFmt) (js ''x 1'')) = Inl (Error (js ''EACCES''))"
  by (simp add: formatHotDocument_def fmtEnv_def)

end
